theory Spec2Isabelle
  imports Complex_Main "HOL-Library.Log_Nat"
begin

section \<open>Track end points of matcha: \<open>src/matcha/track_point.py\<close>\<close>

text \<open>
  The module holds two globals, the enumeration \<open>TPCRegion\<close> and the class
  \<open>TrackPoint\<close>. Python floats are modelled by \<^typ>\<open>real\<close> (no rounding, no NaN, no
  infinities), Python ints by \<^typ>\<open>int\<close>, and a value that may be \<open>None\<close> by an
  \<^typ>\<open>'a option\<close>. An exception is a value of \<open>error\<close>; a method that may raise returns
  \<open>error + 'a\<close> with \<open>Inl\<close> for the exception. Where a property depends on how the
  results of \<open>+\<close> and \<open>*\<close> are rounded, the arithmetic is that of binary64
  (\<open>shift_position_x_double\<close> below).
\<close>

subsection \<open>Module globals\<close>

datatype error = TypeError | ValueError

definition TPC_X_BOUNDS :: "real list" where
  "TPC_X_BOUNDS = [-358.49, -210.215, -61.94, 61.94, 210.215, 358.49]"

subsection \<open>The enumeration \<open>TPCRegion\<close>\<close>

datatype TPCRegion = WestOfWW | WW | WE | BetweenTPCs | EW | EE | EastOfEE

fun TPCRegion_value :: "TPCRegion \<Rightarrow> nat" where
  "TPCRegion_value WestOfWW = 0"
| "TPCRegion_value WW = 1"
| "TPCRegion_value WE = 2"
| "TPCRegion_value BetweenTPCs = 3"
| "TPCRegion_value EW = 4"
| "TPCRegion_value EE = 5"
| "TPCRegion_value EastOfEE = 6"

fun TPCRegion_name :: "TPCRegion \<Rightarrow> string" where
  "TPCRegion_name WestOfWW = ''WestOfWW''"
| "TPCRegion_name WW = ''WW''"
| "TPCRegion_name WE = ''WE''"
| "TPCRegion_name BetweenTPCs = ''BetweenTPCs''"
| "TPCRegion_name EW = ''EW''"
| "TPCRegion_name EE = ''EE''"
| "TPCRegion_name EastOfEE = ''EastOfEE''"

definition TPCRegion_members :: "TPCRegion list" where
  "TPCRegion_members = [WestOfWW, WW, WE, BetweenTPCs, EW, EE, EastOfEE]"

text \<open>
  \<open>TPCRegion(v)\<close>: the member whose value is \<open>v\<close>; Python's \<open>Enum\<close> raises
  \<open>ValueError\<close> when there is none.
\<close>

definition TPCRegion_call :: "nat \<Rightarrow> error + TPCRegion" where
  "TPCRegion_call v =
     (case find (\<lambda>r. TPCRegion_value r = v) TPCRegion_members of
        None \<Rightarrow> Inl ValueError
      | Some r \<Rightarrow> Inr r)"

subsection \<open>\<open>np.digitize\<close>\<close>

text \<open>
  \<open>np.digitize(x, bins)\<close> is a function of the numpy library, used here with its default
  \<open>right=False\<close> and with bins in increasing order. Its documented result for such bins
  is the index \<open>i\<close> with \<open>bins[i-1] <= x < bins[i]\<close>, that is the position of the first
  bin edge strictly greater than \<open>x\<close> (\<open>len(bins)\<close> when there is none): the number of
  leading edges that are \<open>\<le> x\<close>.
\<close>

definition digitize :: "real \<Rightarrow> real list \<Rightarrow> nat" where
  "digitize x bins = length (takeWhile (\<lambda>b. b \<le> x) bins)"

subsection \<open>The class \<open>TrackPoint\<close>\<close>

record TrackPoint =
  track_id :: int
  position_x :: real
  position_y :: real
  position_z :: real
  direction_x :: real
  direction_y :: real
  direction_z :: real
  drift_direction :: "int option"

text \<open>
  \<open>_get_drift_direction(self, point_x)\<close>. The method reads nothing of \<open>self\<close>, which at
  the time of the call in \<open>__init__\<close> has no \<open>_drift_direction\<close> yet, so the model takes
  \<open>point_x\<close> only. The region name is compared as a string, in the order of the source.
\<close>

definition get_drift_direction :: "real \<Rightarrow> error + int option" where
  "get_drift_direction point_x =
     (let point_region = digitize point_x TPC_X_BOUNDS in
      case TPCRegion_call point_region of
        Inl e \<Rightarrow> Inl e
      | Inr r \<Rightarrow>
          (let region = TPCRegion_name r in
           if region = ''WW'' \<or> region = ''EW'' then Inr (Some 1)
           else if region = ''EE'' \<or> region = ''WE'' then Inr (Some (- 1))
           else Inr None))"

text \<open>\<open>__init__\<close>: seven stores, then the drift direction of the stored \<open>position_x\<close>.\<close>

definition TrackPoint_init ::
  "int \<Rightarrow> real \<Rightarrow> real \<Rightarrow> real \<Rightarrow> real \<Rightarrow> real \<Rightarrow> real \<Rightarrow> error + TrackPoint" where
  "TrackPoint_init tid px py pz dx dy dz =
     (case get_drift_direction px of
        Inl e \<Rightarrow> Inl e
      | Inr d \<Rightarrow>
          Inr \<lparr>track_id = tid,
               position_x = px, position_y = py, position_z = pz,
               direction_x = dx, direction_y = dy, direction_z = dz,
               drift_direction = d\<rparr>)"

text \<open>The property setters: each writes its own field and nothing else.\<close>

definition set_track_id :: "int \<Rightarrow> TrackPoint \<Rightarrow> TrackPoint" where
  "set_track_id v self = self\<lparr>track_id := v\<rparr>"

definition set_position_x :: "real \<Rightarrow> TrackPoint \<Rightarrow> TrackPoint" where
  "set_position_x v self = self\<lparr>position_x := v\<rparr>"

definition set_position_y :: "real \<Rightarrow> TrackPoint \<Rightarrow> TrackPoint" where
  "set_position_y v self = self\<lparr>position_y := v\<rparr>"

definition set_position_z :: "real \<Rightarrow> TrackPoint \<Rightarrow> TrackPoint" where
  "set_position_z v self = self\<lparr>position_z := v\<rparr>"

definition set_direction_x :: "real \<Rightarrow> TrackPoint \<Rightarrow> TrackPoint" where
  "set_direction_x v self = self\<lparr>direction_x := v\<rparr>"

definition set_direction_y :: "real \<Rightarrow> TrackPoint \<Rightarrow> TrackPoint" where
  "set_direction_y v self = self\<lparr>direction_y := v\<rparr>"

definition set_direction_z :: "real \<Rightarrow> TrackPoint \<Rightarrow> TrackPoint" where
  "set_direction_z v self = self\<lparr>direction_z := v\<rparr>"

definition set_drift_direction :: "int option \<Rightarrow> TrackPoint \<Rightarrow> TrackPoint" where
  "set_drift_direction v self = self\<lparr>drift_direction := v\<rparr>"

text \<open>
  \<open>shift_position_x(self, t0, drift_velocity)\<close>. The right-hand side of line 177 is
  evaluated as \<open>position_x + ((drift_velocity * t0) * drift_direction)\<close>: the product
  \<open>drift_velocity * t0\<close> first, where a \<open>drift_velocity\<close> of \<open>None\<close> raises \<open>TypeError\<close>;
  then the product with \<open>drift_direction\<close>, where \<open>None\<close> raises \<open>TypeError\<close>; then the
  sum. The store into \<open>position_x\<close> is the last statement, so a call that raises has
  written nothing.
\<close>

definition shift_position_x :: "real \<Rightarrow> real option \<Rightarrow> TrackPoint \<Rightarrow> error + TrackPoint" where
  "shift_position_x t0 drift_velocity self =
     (case drift_velocity of
        None \<Rightarrow> Inl TypeError
      | Some v \<Rightarrow>
          (case drift_direction self of
             None \<Rightarrow> Inl TypeError
           | Some d \<Rightarrow>
               (let shifted_x = position_x self + v * t0 * of_int d
                in Inr (set_position_x shifted_x self))))"

text \<open>
  The object as the caller finds it after a call: the updated one when the call returned,
  the old one when it raised.
\<close>

definition object_after :: "TrackPoint \<Rightarrow> error + TrackPoint \<Rightarrow> TrackPoint" where
  "object_after self r = (case r of Inl e \<Rightarrow> self | Inr self' \<Rightarrow> self')"

subsection \<open>Binary64 arithmetic\<close>

text \<open>
  A Python float is an IEEE 754 binary64 number: an integer multiple \<open>m * 2 powi e\<close>
  with \<open>\<bar>m\<bar> < 2 ^ 53\<close> and \<open>e \<ge> -1074\<close>. The float operations \<open>+\<close> and \<open>*\<close> return the
  exact result rounded to the nearest such number, a tie going to the even \<open>m\<close>. The
  spacing \<open>2 powi e\<close> of the doubles around \<open>x\<close> has \<open>e = \<lfloor>log 2 \<bar>x\<bar>\<rfloor> - 52\<close>, and
  \<open>e = -1074\<close> for the subnormal numbers; \<open>double_quantum\<close> computes \<open>e\<close> from the bit
  length of \<open>\<lfloor>\<bar>x\<bar> * 2 ^ 1074\<rfloor>\<close>. Results of magnitude \<open>2 ^ 1024\<close> and more (Python's
  \<open>inf\<close>) and \<open>nan\<close> are not modelled.
\<close>

definition round_half_even :: "real \<Rightarrow> int" where
  "round_half_even x =
     (let f = \<lfloor>x\<rfloor>; r = x - of_int f
      in if r < 1 / 2 then f
         else if 1 / 2 < r then f + 1
         else if even f then f else f + 1)"

definition double_quantum :: "real \<Rightarrow> int" where
  "double_quantum x = max (- 1074) (bitlen \<lfloor>\<bar>x\<bar> * 2 ^ 1074\<rfloor> - 1127)"

definition round_double :: "real \<Rightarrow> real" where
  "round_double x =
     (let e = double_quantum x
      in of_int (round_half_even (x / 2 powi e)) * 2 powi e)"

definition float_add :: "real \<Rightarrow> real \<Rightarrow> real" where
  "float_add a b = round_double (a + b)"

definition float_mul :: "real \<Rightarrow> real \<Rightarrow> real" where
  "float_mul a b = round_double (a * b)"

text \<open>
  \<open>shift_position_x\<close> with the arithmetic of line 177 as Python performs it: the float
  product \<open>drift_velocity * t0\<close>, the product of that float with the int
  \<open>drift_direction\<close>, which is converted to a float first, and the float sum. The
  branches that raise are those of \<open>shift_position_x\<close>; the \<open>OverflowError\<close> of
  converting an int beyond the range of the doubles is not modelled.
\<close>

definition shift_position_x_double ::
  "real \<Rightarrow> real option \<Rightarrow> TrackPoint \<Rightarrow> error + TrackPoint" where
  "shift_position_x_double t0 drift_velocity self =
     (case drift_velocity of
        None \<Rightarrow> Inl TypeError
      | Some v \<Rightarrow>
          (case drift_direction self of
             None \<Rightarrow> Inl TypeError
           | Some d \<Rightarrow>
               (let shifted_x =
                      float_add (position_x self)
                        (float_mul (float_mul v t0) (round_double (of_int d)))
                in Inr (set_position_x shifted_x self))))"

text \<open>A caller that shifts the same point several times, one \<open>(t0, drift_velocity)\<close> per call.\<close>

fun shift_repeatedly :: "(real \<times> real option) list \<Rightarrow> TrackPoint \<Rightarrow> error + TrackPoint" where
  "shift_repeatedly [] self = Inr self"
| "shift_repeatedly ((t0, dv) # calls) self =
     (case shift_position_x_double t0 dv self of
        Inl e \<Rightarrow> Inl e
      | Inr self' \<Rightarrow> shift_repeatedly calls self')"

subsection \<open>The module's state: \<open>V_DRIFT\<close> and the default of \<open>drift_velocity\<close>\<close>

text \<open>
  \<open>V_DRIFT = None\<close> is executed at import. The \<open>def\<close> of \<open>shift_position_x\<close> is executed
  once, later in the same import, and evaluates the default expression \<open>V_DRIFT\<close> then;
  the value is kept with the function. A later assignment to the global \<open>V_DRIFT\<close> writes
  the global only.
\<close>

record module_state =
  V_DRIFT :: "real option"
  drift_velocity_default :: "real option"

definition module_import :: module_state where
  "module_import =
     (let v_drift = None
      in \<lparr>V_DRIFT = v_drift, drift_velocity_default = v_drift\<rparr>)"

definition rebind_V_DRIFT :: "real option \<Rightarrow> module_state \<Rightarrow> module_state" where
  "rebind_V_DRIFT v m = m\<lparr>V_DRIFT := v\<rparr>"

definition rebind_all :: "real option list \<Rightarrow> module_state \<Rightarrow> module_state" where
  "rebind_all vs m = fold rebind_V_DRIFT vs m"

text \<open>
  A call of \<open>shift_position_x\<close>: the argument \<open>drift_velocity\<close> is either omitted
  (\<open>None\<close>, the default is taken) or supplied (\<open>Some dv\<close>, where \<open>dv\<close> may itself be
  Python's \<open>None\<close>).
\<close>

definition call_shift_position_x ::
  "module_state \<Rightarrow> real \<Rightarrow> real option option \<Rightarrow> TrackPoint \<Rightarrow> error + TrackPoint" where
  "call_shift_position_x m t0 arg self =
     shift_position_x t0
       (case arg of None \<Rightarrow> drift_velocity_default m | Some dv \<Rightarrow> dv) self"

section \<open>Region classification\<close>

lemma TPC_X_BOUNDS_increasing: "sorted_wrt (<) TPC_X_BOUNDS"
  by (simp add: TPC_X_BOUNDS_def)

text \<open>
  The model of \<open>np.digitize\<close> meets the documented contract: the edge before the
  returned index is \<open>\<le> x\<close> and the edge at the index is \<open>> x\<close>; on increasing bins the
  index is the number of edges \<open>\<le> x\<close>.
\<close>

lemma digitize_bracket:
  "(0 < digitize x bins \<longrightarrow> bins ! (digitize x bins - 1) \<le> x) \<and>
   (digitize x bins < length bins \<longrightarrow> x < bins ! digitize x bins)"
proof (intro conjI impI)
  let ?ys = "takeWhile (\<lambda>b. b \<le> x) bins"
  assume pos: "0 < digitize x bins"
  then have i: "digitize x bins - 1 < length ?ys"
    by (simp add: digitize_def)
  then have "?ys ! (digitize x bins - 1) \<in> set ?ys"
    by (rule nth_mem)
  then have "?ys ! (digitize x bins - 1) \<le> x"
    by (auto dest: set_takeWhileD)
  with i show "bins ! (digitize x bins - 1) \<le> x"
    by (simp add: takeWhile_nth)
next
  assume "digitize x bins < length bins"
  then have "\<not> bins ! digitize x bins \<le> x"
    unfolding digitize_def by (rule nth_length_takeWhile)
  then show "x < bins ! digitize x bins"
    by simp
qed

lemma digitize_count:
  "sorted bins \<Longrightarrow> digitize x bins = length (filter (\<lambda>b. b \<le> x) bins)"
proof (induction bins)
  case Nil
  then show ?case by (simp add: digitize_def)
next
  case (Cons b bins)
  show ?case
  proof (cases "b \<le> x")
    case True
    with Cons show ?thesis by (simp add: digitize_def)
  next
    case False
    with Cons.prems have "\<forall>c \<in> set bins. \<not> c \<le> x"
      by auto
    then have "filter (\<lambda>b. b \<le> x) bins = []"
      by (simp add: filter_empty_conv)
    with False show ?thesis by (simp add: digitize_def)
  qed
qed

lemma digitize_le_6: "digitize x TPC_X_BOUNDS \<le> 6"
  unfolding digitize_def TPC_X_BOUNDS_def
  using length_takeWhile_le [of "\<lambda>b. b \<le> x" "[-358.49, -210.215, -61.94, 61.94, 210.215, 358.49]"]
  by simp


text \<open>
  The drift direction as a function of \<open>point_x\<close>: the enumeration lookup never
  raises, since the index is at most 6, and the result is a step function.
\<close>

lemma get_drift_direction_eq:
  "get_drift_direction x =
     Inr (if x < -358.49 then None
          else if x < -210.215 then Some 1
          else if x < -61.94 then Some (- 1)
          else if x < 61.94 then None
          else if x < 210.215 then Some 1
          else if x < 358.49 then Some (- 1)
          else None)"
  by (simp add: get_drift_direction_def digitize_def TPC_X_BOUNDS_def TPCRegion_call_def
      TPCRegion_members_def)

lemma TrackPoint_init_eq:
  "TrackPoint_init tid px py pz dx dy dz =
     map_sum id (\<lambda>d. \<lparr>track_id = tid,
               position_x = px, position_y = py, position_z = pz,
               direction_x = dx, direction_y = dy, direction_z = dz,
               drift_direction = d\<rparr>) (get_drift_direction px)"
  by (simp add: TrackPoint_init_def split: sum.splits)

text \<open>
  C1. For every real \<open>x\<close> given as \<open>position_x\<close>, the constructor returns a point whose
  \<open>drift_direction\<close> follows the seven-region binning over the six boundaries: it is
  \<open>None\<close> for \<open>x\<close> below \<open>-358.49\<close>, above \<open>358.49\<close> or inside \<open>(-61.94, 61.94)\<close>; it is
  \<open>+1\<close> inside \<open>(-358.49, -210.215)\<close> and \<open>(61.94, 210.215)\<close>; it is \<open>-1\<close> inside
  \<open>(-210.215, -61.94)\<close> and \<open>(210.215, 358.49)\<close>.
\<close>

theorem drift_direction_binning:
  "\<exists>tp. TrackPoint_init tid x py pz dx dy dz = Inr tp \<and> position_x tp = x \<and>
     (x < -358.49 \<or> 358.49 < x \<or> (-61.94 < x \<and> x < 61.94) \<longrightarrow>
        drift_direction tp = None) \<and>
     ((-358.49 < x \<and> x < -210.215) \<or> (61.94 < x \<and> x < 210.215) \<longrightarrow>
        drift_direction tp = Some 1) \<and>
     ((-210.215 < x \<and> x < -61.94) \<or> (210.215 < x \<and> x < 358.49) \<longrightarrow>
        drift_direction tp = Some (- 1))"
  by (simp add: TrackPoint_init_eq get_drift_direction_eq)

theorem drift_direction_binning_witness:
  "(\<exists>tp. TrackPoint_init 1 (-400) 0 0 0 0 1 = Inr tp \<and> drift_direction tp = None) \<and>
   (\<exists>tp. TrackPoint_init 1 (-300) 0 0 0 0 1 = Inr tp \<and> drift_direction tp = Some 1) \<and>
   (\<exists>tp. TrackPoint_init 1 (-100) 0 0 0 0 1 = Inr tp \<and> drift_direction tp = Some (- 1)) \<and>
   (\<exists>tp. TrackPoint_init 1 0 0 0 0 0 1 = Inr tp \<and> drift_direction tp = None) \<and>
   (\<exists>tp. TrackPoint_init 1 100 0 0 0 0 1 = Inr tp \<and> drift_direction tp = Some 1) \<and>
   (\<exists>tp. TrackPoint_init 1 300 0 0 0 0 1 = Inr tp \<and> drift_direction tp = Some (- 1)) \<and>
   (\<exists>tp. TrackPoint_init 1 400 0 0 0 0 1 = Inr tp \<and> drift_direction tp = None)"
  using drift_direction_binning [of 1 "-400" 0 0 0 0 1]
    drift_direction_binning [of 1 "-300" 0 0 0 0 1]
    drift_direction_binning [of 1 "-100" 0 0 0 0 1]
    drift_direction_binning [of 1 0 0 0 0 0 1]
    drift_direction_binning [of 1 100 0 0 0 0 1]
    drift_direction_binning [of 1 300 0 0 0 0 1]
    drift_direction_binning [of 1 400 0 0 0 0 1]
  by auto

text \<open>
  C3. A coordinate equal to one of the six boundaries falls into the region that starts
  at that boundary: \<open>-358.49\<close> into \<open>WW\<close> (\<open>+1\<close>), \<open>-210.215\<close> into \<open>WE\<close> (\<open>-1\<close>),
  \<open>-61.94\<close> into \<open>BetweenTPCs\<close> (none), \<open>61.94\<close> into \<open>EW\<close> (\<open>+1\<close>), \<open>210.215\<close> into
  \<open>EE\<close> (\<open>-1\<close>) and \<open>358.49\<close> into \<open>EastOfEE\<close> (none).
\<close>

theorem boundary_left_inclusive:
  "(TPCRegion_call (digitize (-358.49) TPC_X_BOUNDS) = Inr WW \<and>
    map_sum id drift_direction (TrackPoint_init tid (-358.49) py pz dx dy dz) = Inr (Some 1)) \<and>
   (TPCRegion_call (digitize (-210.215) TPC_X_BOUNDS) = Inr WE \<and>
    map_sum id drift_direction (TrackPoint_init tid (-210.215) py pz dx dy dz) = Inr (Some (- 1))) \<and>
   (TPCRegion_call (digitize (-61.94) TPC_X_BOUNDS) = Inr BetweenTPCs \<and>
    map_sum id drift_direction (TrackPoint_init tid (-61.94) py pz dx dy dz) = Inr None) \<and>
   (TPCRegion_call (digitize 61.94 TPC_X_BOUNDS) = Inr EW \<and>
    map_sum id drift_direction (TrackPoint_init tid 61.94 py pz dx dy dz) = Inr (Some 1)) \<and>
   (TPCRegion_call (digitize 210.215 TPC_X_BOUNDS) = Inr EE \<and>
    map_sum id drift_direction (TrackPoint_init tid 210.215 py pz dx dy dz) = Inr (Some (- 1))) \<and>
   (TPCRegion_call (digitize 358.49 TPC_X_BOUNDS) = Inr EastOfEE \<and>
    map_sum id drift_direction (TrackPoint_init tid 358.49 py pz dx dy dz) = Inr None)"
  by (simp add: TrackPoint_init_eq get_drift_direction_eq digitize_def TPC_X_BOUNDS_def
      TPCRegion_call_def TPCRegion_members_def)

text \<open>
  C9. Classification depends on the x-coordinate alone: two points constructed with the
  same \<open>position_x\<close>, whatever their other arguments, get the same \<open>drift_direction\<close> (or
  the same exception), and it is the value of \<open>_get_drift_direction\<close> at that coordinate,
  which reads the fixed boundary list and nothing else.
\<close>

theorem classification_deterministic:
  "map_sum id drift_direction (TrackPoint_init tid1 x py1 pz1 dx1 dy1 dz1) =
     map_sum id drift_direction (TrackPoint_init tid2 x py2 pz2 dx2 dy2 dz2) \<and>
   map_sum id drift_direction (TrackPoint_init tid1 x py1 pz1 dx1 dy1 dz1) =
     get_drift_direction x \<and>
   TPCRegion_call (digitize x TPC_X_BOUNDS) =
     Inr (TPCRegion_members ! length (filter (\<lambda>b. b \<le> x) TPC_X_BOUNDS))"
  by (simp add: TrackPoint_init_eq get_drift_direction_eq digitize_def TPC_X_BOUNDS_def
      TPCRegion_call_def TPCRegion_members_def)

section \<open>Shifting \<open>position_x\<close>\<close>

text \<open>
  C2. With \<open>drift_direction\<close> set to \<open>+1\<close> or \<open>-1\<close>, \<open>shift_position_x(t0, drift_velocity)\<close>
  returns and leaves \<open>position_x + drift_velocity * t0 * drift_direction\<close> in
  \<open>position_x\<close>. From 100.0 with \<open>t0 = 2.0\<close> and \<open>drift_velocity = 0.5\<close> the result is
  101.0 for \<open>+1\<close> and 99.0 for \<open>-1\<close>.
\<close>

theorem shift_position_x_formula:
  "drift_direction tp = Some d \<Longrightarrow> d = 1 \<or> d = - 1 \<Longrightarrow>
   shift_position_x t0 (Some v) tp =
     Inr (tp\<lparr>position_x := position_x tp + v * t0 * of_int d\<rparr>)"
  by (simp add: shift_position_x_def set_position_x_def)

theorem shift_position_x_formula_witness:
  "shift_position_x 2 (Some 0.5)
     \<lparr>track_id = 7, position_x = 100, position_y = 0, position_z = 0,
      direction_x = 0, direction_y = 0, direction_z = 1, drift_direction = Some 1\<rparr> =
   Inr \<lparr>track_id = 7, position_x = 101, position_y = 0, position_z = 0,
      direction_x = 0, direction_y = 0, direction_z = 1, drift_direction = Some 1\<rparr> \<and>
   shift_position_x 2 (Some 0.5)
     \<lparr>track_id = 7, position_x = 100, position_y = 0, position_z = 0,
      direction_x = 0, direction_y = 0, direction_z = 1, drift_direction = Some (- 1)\<rparr> =
   Inr \<lparr>track_id = 7, position_x = 99, position_y = 0, position_z = 0,
      direction_x = 0, direction_y = 0, direction_z = 1, drift_direction = Some (- 1)\<rparr>"
  using shift_position_x_formula [of "\<lparr>track_id = 7, position_x = 100, position_y = 0, position_z = 0,
      direction_x = 0, direction_y = 0, direction_z = 1, drift_direction = Some 1\<rparr>" 1 2 "0.5"]
    shift_position_x_formula [of "\<lparr>track_id = 7, position_x = 100, position_y = 0, position_z = 0,
      direction_x = 0, direction_y = 0, direction_z = 1, drift_direction = Some (- 1)\<rparr>" "- 1" 2 "0.5"]
  by simp

text \<open>
  C4. On a point whose \<open>drift_direction\<close> is \<open>None\<close>, \<open>shift_position_x\<close> raises
  (\<open>TypeError\<close>, from the product with \<open>None\<close>) for every \<open>t0\<close> and every
  \<open>drift_velocity\<close>, and the point is left as it was: nothing is written to
  \<open>position_x\<close>.
\<close>

theorem shift_without_drift_direction_raises:
  "drift_direction tp = None \<Longrightarrow>
   shift_position_x t0 dv tp = Inl TypeError \<and>
   object_after tp (shift_position_x t0 dv tp) = tp"
  by (simp add: shift_position_x_def object_after_def split: option.splits)

theorem shift_without_drift_direction_raises_witness:
  "shift_position_x 2 (Some 0.5)
     \<lparr>track_id = 7, position_x = 0, position_y = 0, position_z = 0,
      direction_x = 0, direction_y = 0, direction_z = 1, drift_direction = None\<rparr> = Inl TypeError \<and>
   object_after \<lparr>track_id = 7, position_x = 0, position_y = 0, position_z = 0,
      direction_x = 0, direction_y = 0, direction_z = 1, drift_direction = None\<rparr>
     (shift_position_x 2 (Some 0.5)
       \<lparr>track_id = 7, position_x = 0, position_y = 0, position_z = 0,
      direction_x = 0, direction_y = 0, direction_z = 1, drift_direction = None\<rparr>) =
     \<lparr>track_id = 7, position_x = 0, position_y = 0, position_z = 0,
      direction_x = 0, direction_y = 0, direction_z = 1, drift_direction = None\<rparr>"
proof -
  have h: "drift_direction \<lparr>track_id = 7, position_x = 0, position_y = 0, position_z = 0,
      direction_x = 0, direction_y = 0, direction_z = 1, drift_direction = None\<rparr> = None"
    by simp
  show ?thesis
    by (rule shift_without_drift_direction_raises [OF h])
qed

subsection \<open>Rounding to binary64\<close>

lemma round_half_even_nearest: "\<bar>of_int (round_half_even x) - x\<bar> \<le> 1 / 2"
  unfolding round_half_even_def Let_def by (auto; linarith)

lemma round_half_even_of_int: "round_half_even (of_int n) = n"
  by (simp add: round_half_even_def)

lemma bitlen_eqI:
  assumes "2 ^ a \<le> n" and "n < 2 ^ Suc a"
  shows "bitlen n = int a + 1"
proof -
  have npos: "0 < n"
    using assms(1) by (smt (verit) zero_less_power)
  from bitlen_bounds [OF npos]
  have b1: "2 ^ nat (bitlen n - 1) \<le> n" and b2: "n < 2 ^ nat (bitlen n)"
    by simp_all
  have "(2::int) ^ nat (bitlen n - 1) < 2 ^ Suc a"
    using b1 assms(2) by linarith
  then have c1: "nat (bitlen n - 1) < Suc a"
    by (simp only: power_strict_increasing_iff [of "2::int"] one_less_numeral_iff
        semiring_norm)
  have "(2::int) ^ a < 2 ^ nat (bitlen n)"
    using b2 assms(1) by linarith
  then have c2: "a < nat (bitlen n)"
    by (simp only: power_strict_increasing_iff [of "2::int"] one_less_numeral_iff
        semiring_norm)
  show ?thesis
    using c1 c2 bitlen_nonneg [of n] by linarith
qed

lemma bitlen_floor_scaled:
  fixes a :: real and N :: nat
  assumes lo: "2 powi k \<le> a" and hi: "a < 2 powi (k + 1)" and k: "0 \<le> k + int N"
  shows "bitlen \<lfloor>a * 2 ^ N\<rfloor> = k + int N + 1"
proof -
  let ?y = "a * 2 ^ N"
  let ?m = "nat (k + int N)"
  have p1: "(2::real) powi k * 2 ^ N = 2 ^ ?m"
  proof -
    have "(2::real) powi k * 2 ^ N = 2 powi k * 2 powi (int N)"
      by (simp only: power_int_of_nat)
    also have "\<dots> = 2 powi (k + int N)"
      by (simp add: power_int_add)
    also have "\<dots> = 2 ^ ?m"
      using k by (simp add: power_int_def)
    finally show ?thesis .
  qed
  have p2: "(2::real) powi (k + 1) * 2 ^ N = 2 ^ Suc ?m"
  proof -
    have "(2::real) powi (k + 1) * 2 ^ N = 2 powi (k + 1) * 2 powi (int N)"
      by (simp only: power_int_of_nat)
    also have "\<dots> = 2 powi (k + int N + 1)"
      by (simp add: power_int_add)
    also have "\<dots> = 2 ^ nat (k + int N + 1)"
      using k by (simp add: power_int_def)
    also have "nat (k + int N + 1) = Suc ?m"
      using k by simp
    finally show ?thesis .
  qed
  have "2 powi k * 2 ^ N \<le> ?y"
    using lo by (simp add: mult_right_mono)
  then have ylo: "2 ^ ?m \<le> ?y"
    by (simp only: p1)
  have "?y < 2 powi (k + 1) * 2 ^ N"
    using hi by (simp add: mult_strict_right_mono)
  then have yhi: "?y < 2 ^ Suc ?m"
    by (simp only: p2)
  have nlo: "2 ^ ?m \<le> \<lfloor>?y\<rfloor>"
  proof -
    have "of_int (2 ^ ?m) \<le> ?y" using ylo by simp
    then show ?thesis by (simp only: le_floor_iff)
  qed
  have nhi: "\<lfloor>?y\<rfloor> < 2 ^ Suc ?m"
  proof -
    have "?y < of_int (2 ^ Suc ?m)" using yhi by simp
    then show ?thesis by (simp only: floor_less_iff)
  qed
  have "bitlen \<lfloor>?y\<rfloor> = int ?m + 1"
    using nlo nhi by (rule bitlen_eqI)
  then show ?thesis
    using k by simp
qed


text \<open>The spacing of the doubles in the binade \<open>[2 powi k, 2 powi (k + 1))\<close>.\<close>

lemma double_quantum_eq:
  assumes lo: "2 powi k \<le> \<bar>x\<bar>" and hi: "\<bar>x\<bar> < 2 powi (k + 1)" and k: "- 1022 \<le> k"
  shows "double_quantum x = k - 52"
proof -
  have "0 \<le> k + int 1074"
    using k by simp
  from bitlen_floor_scaled [OF lo hi this]
  have "bitlen \<lfloor>\<bar>x\<bar> * 2 ^ 1074\<rfloor> = k + 1075"
    by simp
  then show ?thesis
    unfolding double_quantum_def using k by simp
qed

text \<open>Rounding moves a number by at most half the spacing.\<close>

lemma round_double_error: "\<bar>round_double x - x\<bar> \<le> 2 powi double_quantum x / 2"
proof -
  let ?q = "(2::real) powi double_quantum x"
  have q: "0 < ?q"
    by simp
  have "round_double x - x = (of_int (round_half_even (x / ?q)) - x / ?q) * ?q"
    using q by (simp add: round_double_def Let_def algebra_simps)
  then have "\<bar>round_double x - x\<bar> = \<bar>of_int (round_half_even (x / ?q)) - x / ?q\<bar> * ?q"
    using q by (simp add: abs_mult)
  also have "\<dots> \<le> 1 / 2 * ?q"
    using round_half_even_nearest [of "x / ?q"] q by (intro mult_right_mono) simp_all
  finally show ?thesis
    by simp
qed

text \<open>A multiple of the spacing is a double: rounding leaves it as it is.\<close>

lemma round_double_exact:
  assumes "double_quantum x = e" and "x = of_int m * 2 powi e"
  shows "round_double x = x"
proof -
  have "x / 2 powi e = of_int m"
    using assms(2) by simp
  then have "round_half_even (x / 2 powi e) = m"
    by (simp only: round_half_even_of_int)
  then show ?thesis
    using assms by (simp add: round_double_def)
qed

lemma round_double_1: "round_double 1 = 1"
proof -
  have q: "double_quantum 1 = 0 - 52"
    by (rule double_quantum_eq) simp_all
  have "(1::real) = of_int (2 ^ 52) * 2 powi (0 - 52)"
    by (simp add: power_int_minus)
  with q show ?thesis
    by (rule round_double_exact)
qed

lemma round_double_2: "round_double 2 = 2"
proof -
  have q: "double_quantum 2 = 1 - 52"
    by (rule double_quantum_eq) simp_all
  have "(2::real) = of_int (2 ^ 52) * 2 powi (1 - 52)"
    by (simp add: power_int_minus)
  with q show ?thesis
    by (rule round_double_exact)
qed

text \<open>
  Between \<open>2 ^ 53\<close> and \<open>2 ^ 54\<close> the doubles are the even integers: \<open>10 ^ 16 + 1\<close>
  lies half-way between two of them and goes to \<open>10 ^ 16\<close>, the one with the even
  \<open>m = 5 * 10 ^ 15\<close>.
\<close>

lemma round_double_1e16_plus_1: "round_double 10000000000000001 = 10000000000000000"
proof -
  have "double_quantum 10000000000000001 = 53 - 52"
    by (rule double_quantum_eq) simp_all
  then show ?thesis
    by (simp add: round_double_def round_half_even_def)
qed

lemma shift_position_x_double_Some:
  "drift_direction tp = Some d \<Longrightarrow>
   shift_position_x_double t0 (Some v) tp =
     Inr (tp\<lparr>position_x :=
            float_add (position_x tp) (float_mul (float_mul v t0) (round_double (of_int d)))\<rparr>)"
  by (simp add: shift_position_x_double_def set_position_x_def)

text \<open>
  C5. Repeated calls compose in sequence: each call starts from the
  \<open>position_x\<close> the previous one left, none of them raises, and no other field changes,
  so after the calls \<open>(t0\<^sub>1, v\<^sub>1), \<dots>, (t0\<^sub>n, v\<^sub>n)\<close> on a point with \<open>drift_direction = d\<close>
  the coordinate is the old one with the terms \<open>v\<^sub>i * t0\<^sub>i * d\<close> added one after the
  other, from left to right, every product and every sum rounded as Python's floats are.
  Two calls with \<open>t0 = 1.0\<close> and \<open>drift_velocity = 1.0\<close> from 0.0 with direction \<open>+1\<close>
  give 2.0.
\<close>

theorem shift_repeatedly_sequential:
  "drift_direction tp = Some d \<Longrightarrow>
   shift_repeatedly (map (\<lambda>(t0, v). (t0, Some v)) calls) tp =
     Inr (tp\<lparr>position_x :=
            foldl (\<lambda>x (t0, v). float_add x (float_mul (float_mul v t0) (round_double (of_int d))))
              (position_x tp) calls\<rparr>)"
proof (induction calls arbitrary: tp)
  case Nil
  then show ?case by simp
next
  case (Cons c calls)
  obtain t0 v where c: "c = (t0, v)" by (cases c)
  let ?x' = "float_add (position_x tp) (float_mul (float_mul v t0) (round_double (of_int d)))"
  let ?tp' = "tp\<lparr>position_x := ?x'\<rparr>"
  have step: "shift_position_x_double t0 (Some v) tp = Inr ?tp'"
    using Cons.prems by (rule shift_position_x_double_Some)
  have "drift_direction ?tp' = Some d"
    using Cons.prems by simp
  from Cons.IH [OF this] show ?case
    by (simp add: c step)
qed

theorem shift_repeatedly_sequential_witness:
  "shift_repeatedly [(1, Some 1), (1, Some 1)]
     \<lparr>track_id = 7, position_x = 0, position_y = 0, position_z = 0,
      direction_x = 0, direction_y = 0, direction_z = 1, drift_direction = Some 1\<rparr> =
   Inr \<lparr>track_id = 7, position_x = 2, position_y = 0, position_z = 0,
      direction_x = 0, direction_y = 0, direction_z = 1, drift_direction = Some 1\<rparr>"
  using shift_repeatedly_sequential [of "\<lparr>track_id = 7, position_x = 0, position_y = 0, position_z = 0,
      direction_x = 0, direction_y = 0, direction_z = 1, drift_direction = Some 1\<rparr>" 1 "[(1, 1), (1, 1)]"]
  by (simp add: float_add_def float_mul_def round_double_1 round_double_2)

text \<open>
  That \<open>n\<close> calls add the sum of the \<open>n\<close> terms does not hold in this arithmetic: from
  \<open>10 ^ 16\<close> two calls with \<open>t0 = 1.0\<close>, \<open>drift_velocity = 1.0\<close> and direction \<open>+1\<close>
  each add 1.0, each sum is rounded back to \<open>10 ^ 16\<close>, and the point is left where it
  was, while the old coordinate plus the sum of the two terms is \<open>10 ^ 16 + 2\<close>, a
  double itself.
\<close>

theorem shift_repeatedly_not_additive:
  "shift_repeatedly [(1, Some 1), (1, Some 1)]
     \<lparr>track_id = 7, position_x = 10000000000000000, position_y = 0, position_z = 0,
      direction_x = 0, direction_y = 0, direction_z = 1, drift_direction = Some 1\<rparr> =
   Inr \<lparr>track_id = 7, position_x = 10000000000000000, position_y = 0, position_z = 0,
      direction_x = 0, direction_y = 0, direction_z = 1, drift_direction = Some 1\<rparr> \<and>
   shift_repeatedly [(1, Some 1), (1, Some 1)]
     \<lparr>track_id = 7, position_x = 10000000000000000, position_y = 0, position_z = 0,
      direction_x = 0, direction_y = 0, direction_z = 1, drift_direction = Some 1\<rparr> \<noteq>
   Inr (\<lparr>track_id = 7, position_x = 10000000000000000, position_y = 0, position_z = 0,
      direction_x = 0, direction_y = 0, direction_z = 1, drift_direction = Some 1\<rparr>
        \<lparr>position_x := 10000000000000000 + (1 * 1 * 1 + 1 * 1 * 1)\<rparr>)"
proof -
  have step: "shift_position_x_double 1 (Some 1)
     \<lparr>track_id = 7, position_x = 10000000000000000, position_y = 0, position_z = 0,
      direction_x = 0, direction_y = 0, direction_z = 1, drift_direction = Some 1\<rparr> =
   Inr \<lparr>track_id = 7, position_x = 10000000000000000, position_y = 0, position_z = 0,
      direction_x = 0, direction_y = 0, direction_z = 1, drift_direction = Some 1\<rparr>"
    by (simp add: shift_position_x_double_def set_position_x_def float_add_def float_mul_def
        round_double_1 round_double_1e16_plus_1)
  show ?thesis
    by (simp add: step)
qed

text \<open>
  C6. A call of \<open>shift_position_x\<close> that returns has written \<open>position_x\<close> only:
  \<open>track_id\<close>, \<open>position_y\<close>, \<open>position_z\<close>, the three direction components and
  \<open>drift_direction\<close> are those of the point before the call; the drift direction is not
  recomputed from the new coordinate.
\<close>

theorem shift_only_position_x:
  "shift_position_x t0 dv tp = Inr tp' \<Longrightarrow>
   track_id tp' = track_id tp \<and>
   position_y tp' = position_y tp \<and> position_z tp' = position_z tp \<and>
   direction_x tp' = direction_x tp \<and> direction_y tp' = direction_y tp \<and>
   direction_z tp' = direction_z tp \<and>
   drift_direction tp' = drift_direction tp \<and>
   tp' = tp\<lparr>position_x := position_x tp'\<rparr>"
  by (auto simp add: shift_position_x_def set_position_x_def split: option.splits)

text \<open>
  The witness shifts a point from 200 (region \<open>EW\<close>, direction \<open>+1\<close>) to 220, which lies
  in \<open>EE\<close>: the stored direction stays \<open>+1\<close> although the new coordinate classifies as
  \<open>-1\<close>.
\<close>

theorem shift_only_position_x_witness:
  "shift_position_x 20 (Some 1)
     \<lparr>track_id = 7, position_x = 200, position_y = 0, position_z = 0,
      direction_x = 0, direction_y = 0, direction_z = 1, drift_direction = Some 1\<rparr> =
   Inr \<lparr>track_id = 7, position_x = 220, position_y = 0, position_z = 0,
      direction_x = 0, direction_y = 0, direction_z = 1, drift_direction = Some 1\<rparr> \<and>
   drift_direction \<lparr>track_id = 7, position_x = 220, position_y = 0, position_z = 0,
      direction_x = 0, direction_y = 0, direction_z = 1, drift_direction = Some 1\<rparr> =
   drift_direction \<lparr>track_id = 7, position_x = 200, position_y = 0, position_z = 0,
      direction_x = 0, direction_y = 0, direction_z = 1, drift_direction = Some 1\<rparr> \<and>
   get_drift_direction (position_x \<lparr>track_id = 7, position_x = 220, position_y = 0, position_z = 0,
      direction_x = 0, direction_y = 0, direction_z = 1, drift_direction = Some 1\<rparr>) = Inr (Some (- 1))"
proof -
  have h: "shift_position_x 20 (Some 1)
     \<lparr>track_id = 7, position_x = 200, position_y = 0, position_z = 0,
      direction_x = 0, direction_y = 0, direction_z = 1, drift_direction = Some 1\<rparr> =
   Inr \<lparr>track_id = 7, position_x = 220, position_y = 0, position_z = 0,
      direction_x = 0, direction_y = 0, direction_z = 1, drift_direction = Some 1\<rparr>"
    by (simp add: shift_position_x_def set_position_x_def)
  have g: "get_drift_direction (position_x \<lparr>track_id = 7, position_x = 220, position_y = 0, position_z = 0,
      direction_x = 0, direction_y = 0, direction_z = 1, drift_direction = Some 1\<rparr>) = Inr (Some (- 1))"
    by (simp add: get_drift_direction_eq)
  from h g shift_only_position_x [OF h] show ?thesis
    by blast
qed

text \<open>
  C7. The constructor computes \<open>drift_direction\<close> from the \<open>position_x\<close> it is given, and
  the setter of \<open>position_x\<close> is a plain write of that field: after assigning any new
  coordinate \<open>v\<close>, \<open>drift_direction\<close> is still the value computed at construction from
  the constructor's coordinate.
\<close>

theorem position_x_setter_plain:
  "set_position_x v tp = tp\<lparr>position_x := v\<rparr> \<and>
   drift_direction (set_position_x v tp) = drift_direction tp \<and>
   map_sum id drift_direction (TrackPoint_init tid x py pz dx dy dz) = get_drift_direction x \<and>
   map_sum id (\<lambda>tp. drift_direction (set_position_x v tp)) (TrackPoint_init tid x py pz dx dy dz) =
     get_drift_direction x"
  by (simp add: set_position_x_def TrackPoint_init_eq get_drift_direction_eq)

section \<open>The default of \<open>drift_velocity\<close>\<close>

lemma drift_velocity_default_rebind_all:
  "drift_velocity_default (rebind_all vs m) = drift_velocity_default m"
  unfolding rebind_all_def
  by (induction vs arbitrary: m) (simp_all add: rebind_V_DRIFT_def)

lemma drift_velocity_default_import: "drift_velocity_default module_import = None"
  by (simp add: module_import_def)

text \<open>
  C8. When the default of \<open>drift_velocity\<close> is unset (\<open>None\<close>, the value
  bound at import from \<open>V_DRIFT\<close>) and the caller gives no drift velocity, the call
  raises at line 177: the exception is Python's \<open>TypeError\<close> from the product of \<open>None\<close>
  with \<open>t0\<close>. No other velocity is put in its place and no shifted point is returned.
\<close>

theorem unset_default_raises_TypeError:
  "drift_velocity_default m = None \<Longrightarrow>
   call_shift_position_x m t0 None tp = Inl TypeError"
  by (simp add: call_shift_position_x_def shift_position_x_def)

theorem unset_default_raises_TypeError_witness:
  "drift_velocity_default module_import = None \<and>
   call_shift_position_x module_import 2 None
     \<lparr>track_id = 7, position_x = 100, position_y = 0, position_z = 0,
      direction_x = 0, direction_y = 0, direction_z = 1, drift_direction = Some 1\<rparr> = Inl TypeError"
proof -
  have h: "drift_velocity_default module_import = None"
    by (simp add: module_import_def)
  show ?thesis
    by (rule conjI [OF h unset_default_raises_TypeError [OF h]])
qed

text \<open>
  The failure is not a configuration error of its own: the
  exception of a call without drift velocity is the one that a call with a
  drift velocity raises on a point without drift direction, so it does not tell the
  caller that the configuration is missing; and it is raised all the same after
  \<open>V_DRIFT\<close> has been set to 0.16.
\<close>

theorem unset_default_error_not_configuration:
  "call_shift_position_x module_import 2 None
     \<lparr>track_id = 7, position_x = 100, position_y = 0, position_z = 0,
      direction_x = 0, direction_y = 0, direction_z = 1, drift_direction = Some 1\<rparr> =
   call_shift_position_x module_import 2 (Some (Some 0.5))
     \<lparr>track_id = 7, position_x = 100, position_y = 0, position_z = 0,
      direction_x = 0, direction_y = 0, direction_z = 1, drift_direction = None\<rparr> \<and>
   call_shift_position_x module_import 2 None
     \<lparr>track_id = 7, position_x = 100, position_y = 0, position_z = 0,
      direction_x = 0, direction_y = 0, direction_z = 1, drift_direction = Some 1\<rparr> = Inl TypeError \<and>
   V_DRIFT (rebind_V_DRIFT (Some 0.16) module_import) = Some 0.16 \<and>
   call_shift_position_x (rebind_V_DRIFT (Some 0.16) module_import) 2 None
     \<lparr>track_id = 7, position_x = 100, position_y = 0, position_z = 0,
      direction_x = 0, direction_y = 0, direction_z = 1, drift_direction = Some 1\<rparr> = Inl TypeError"
  by (simp add: call_shift_position_x_def shift_position_x_def module_import_def
      rebind_V_DRIFT_def)

text \<open>
  C10. The default of \<open>drift_velocity\<close> is the \<open>None\<close> that \<open>V_DRIFT\<close> held when the
  module was imported: whatever is assigned to \<open>V_DRIFT\<close> afterwards, and whatever the
  point's \<open>drift_direction\<close>, a call of \<open>shift_position_x(t0)\<close> without a drift velocity
  raises \<open>TypeError\<close>.
\<close>

theorem default_is_import_time_None:
  "drift_velocity_default (rebind_all vs module_import) = None \<and>
   call_shift_position_x (rebind_all vs module_import) t0 None tp = Inl TypeError"
  by (simp add: call_shift_position_x_def drift_velocity_default_rebind_all
      drift_velocity_default_import shift_position_x_def)

end
